theory Spec2Isabelle
  imports Complex_Main "HOL-Library.Sublist"
begin

section \<open>JavaScript values and library functions\<close>

text \<open>
  A JavaScript \<^verbatim>\<open>number\<close> is modelled by a real: the arithmetic of the model is exact.
  The rounding of IEEE double arithmetic, the signed zeros, the infinities and NaN are
  not represented. In the code the term \<^verbatim>\<open>a\<close> of the distance is a rounded sum and
  nothing clamps it: where its exact value is 1, for antipodal points, the double can
  be \<open>1 + 2\<^sup>-\<^sup>5\<^sup>2\<close>, and \<^verbatim>\<open>Math.sqrt(1 - a)\<close> and the distance are then NaN. The model
  says nothing about a distance that is NaN, nor about an array that holds one.
\<close>

type_synonym number = real

text \<open>\<^verbatim>\<open>Math.round(x)\<close>: the integer nearest to \<open>x\<close>, a tie going up.\<close>

definition Math_round :: "number \<Rightarrow> number" where
  "Math_round x = of_int \<lfloor>x + 1 / 2\<rfloor>"

text \<open>
  \<^verbatim>\<open>Math.atan2(y, x)\<close>: the angle of the point \<open>(x, y)\<close>, in \<open>(-\<pi>, \<pi>]\<close>, with the
  value \<open>0\<close> at the origin (the result of \<^verbatim>\<open>Math.atan2(0, 0)\<close>).
\<close>

definition Math_atan2 :: "number \<Rightarrow> number \<Rightarrow> number" where
  "Math_atan2 y x =
     (if 0 < x then arctan (y / x)
      else if x < 0 then (if 0 \<le> y then arctan (y / x) + pi else arctan (y / x) - pi)
      else if 0 < y then pi / 2
      else if y < 0 then - (pi / 2)
      else 0)"

text \<open>
  \<^verbatim>\<open>Array.prototype.slice(start, end)\<close>: a negative index counts from the end of the
  array, and both indices are clamped to the array.
\<close>

definition slice :: "int \<Rightarrow> int \<Rightarrow> 'a list \<Rightarrow> 'a list" where
  "slice start end xs =
     (let len = int (length xs);
          k = (if start < 0 then max (len + start) 0 else min start len);
          final = (if end < 0 then max (len + end) 0 else min end len)
      in take (nat (final - k)) (drop (nat k) xs))"

text \<open>
  \<^verbatim>\<open>Array.prototype.sort(comparefn)\<close> is a stable sort: an element \<open>x\<close> goes before
  \<open>y\<close> when \<open>comparefn(x, y) < 0\<close>, and elements that compare equal keep the order they
  had. For a comparator that is consistent, as a difference of keys is, the result of a
  stable sort does not depend on the algorithm; the model is the stable insertion sort.
\<close>

fun insert_by :: "('a \<Rightarrow> 'a \<Rightarrow> number) \<Rightarrow> 'a \<Rightarrow> 'a list \<Rightarrow> 'a list" where
  "insert_by comparefn x [] = [x]"
| "insert_by comparefn x (y # ys) =
     (if comparefn x y \<le> 0 then x # y # ys else y # insert_by comparefn x ys)"

definition sort_by :: "('a \<Rightarrow> 'a \<Rightarrow> number) \<Rightarrow> 'a list \<Rightarrow> 'a list" where
  "sort_by comparefn xs = foldr (insert_by comparefn) xs []"

text \<open>\<^verbatim>\<open>a || b\<close> on an optional string: \<open>undefined\<close> and the empty string are falsy.\<close>

definition or_default :: "string option \<Rightarrow> string \<Rightarrow> string" where
  "or_default s d = (case s of None \<Rightarrow> d | Some n \<Rightarrow> if n = [] then d else n)"

text \<open>\<^verbatim>\<open>Number.prototype.toString()\<close> on an integer: its decimal digits.\<close>

definition digit :: "nat \<Rightarrow> char" where
  "digit d = ''0123456789'' ! d"

function digits :: "nat \<Rightarrow> string" where
  "digits n = (if n < 10 then [digit n] else digits (n div 10) @ [digit (n mod 10)])"
  by pat_completeness auto
termination
  by (relation "measure (\<lambda>n. n)") auto

definition toString :: "int \<Rightarrow> string" where
  "toString i = (if i < 0 then CHR ''-'' # digits (nat (- i)) else digits (nat i))"

section \<open>The data model\<close>

text \<open>The user's position: \<^verbatim>\<open>{ lat: number; lon: number }\<close>.\<close>

record Location =
  lat :: number
  lon :: number

text \<open>
  An element of the response of the points-of-interest service, as
  \<^verbatim>\<open>src/unnamed/part_000\<close> declares it:
  \<^verbatim>\<open>{ id: number; lat: number; lon: number; tags: { name?: string } }\<close>.
  In \<^verbatim>\<open>src/app/page.tsx\<close> an element has the type \<^verbatim>\<open>any\<close> and the same fields are
  read. The identifier of a node of the map is an integer.
\<close>

record element =
  element_id :: int
  element_lat :: number
  element_lon :: number
  tags_name :: "string option"

text \<open>
  \<^verbatim>\<open>interface CoffeeShop\<close>. The identifier is a string in \<^verbatim>\<open>src/app/page.tsx\<close> and a
  number in the two other implementations, where the name is an optional field.
\<close>

record ('i, 'n) CoffeeShop =
  shop_id :: 'i
  shop_name :: 'n
  shop_lat :: number
  shop_lon :: number
  distance :: number

section \<open>The distance\<close>

text \<open>
  \<^verbatim>\<open>calculateDistance\<close> of \<^verbatim>\<open>src/app/page.tsx\<close>: metres, then kilometres rounded to
  0.01. The Greek names of the source are spelled out.
\<close>

definition calculateDistance :: "number \<Rightarrow> number \<Rightarrow> number \<Rightarrow> number \<Rightarrow> number" where
  "calculateDistance lat1 lon1 lat2 lon2 =
     (let R = 6371000;
          phi1 = (lat1 * pi) / 180;
          phi2 = (lat2 * pi) / 180;
          d_phi = ((lat2 - lat1) * pi) / 180;
          d_lambda = ((lon2 - lon1) * pi) / 180;
          a = sin (d_phi / 2) * sin (d_phi / 2) +
              cos phi1 * cos phi2 * sin (d_lambda / 2) * sin (d_lambda / 2);
          c = 2 * Math_atan2 (sqrt a) (sqrt (1 - a))
      in Math_round ((R * c) / 1000 * 100) / 100)"

text \<open>
  \<^verbatim>\<open>calculateDistance\<close> of the two implementations of \<^verbatim>\<open>src/unnamed/part_000\<close>, whose
  text is the same: kilometres, not rounded.
\<close>

definition calculateDistance_km :: "number \<Rightarrow> number \<Rightarrow> number \<Rightarrow> number \<Rightarrow> number" where
  "calculateDistance_km lat1 lon1 lat2 lon2 =
     (let R = 6371;
          dLat = (lat2 - lat1) * (pi / 180);
          dLon = (lon2 - lon1) * (pi / 180);
          a = sin (dLat / 2) * sin (dLat / 2) +
              cos (lat1 * (pi / 180)) * cos (lat2 * (pi / 180)) * sin (dLon / 2) * sin (dLon / 2);
          c = 2 * Math_atan2 (sqrt a) (sqrt (1 - a))
      in R * c)"

section \<open>Ranking the candidates\<close>

text \<open>
  The expression that computes \<^verbatim>\<open>shops\<close> in \<^verbatim>\<open>fetchCoffeeShops\<close> of
  \<^verbatim>\<open>src/app/page.tsx\<close>: \<^verbatim>\<open>map\<close>, \<^verbatim>\<open>sort\<close>, \<^verbatim>\<open>slice(0, 5)\<close>.
\<close>

definition toCoffeeShop :: "Location \<Rightarrow> element \<Rightarrow> (string, string) CoffeeShop" where
  "toCoffeeShop location node =
     \<lparr> shop_id = toString (element_id node),
       shop_name = or_default (tags_name node) ''Unnamed Coffee Shop'',
       shop_lat = element_lat node,
       shop_lon = element_lon node,
       distance = calculateDistance (lat location) (lon location)
                    (element_lat node) (element_lon node) \<rparr>"

definition byDistance :: "('i, 'n) CoffeeShop \<Rightarrow> ('i, 'n) CoffeeShop \<Rightarrow> number" where
  "byDistance a b = distance a - distance b"

definition shops :: "Location \<Rightarrow> element list \<Rightarrow> (string, string) CoffeeShop list" where
  "shops location elements =
     slice 0 5 (sort_by byDistance (map (toCoffeeShop location) elements))"

text \<open>
  The same in the two implementations of \<^verbatim>\<open>src/unnamed/part_000\<close>: \<^verbatim>\<open>shops\<close> is
  the mapped array, \<^verbatim>\<open>sortedShops\<close> the first five of it once sorted.
\<close>

definition toCoffeeShop_km :: "Location \<Rightarrow> element \<Rightarrow> (int, string option) CoffeeShop" where
  "toCoffeeShop_km location element =
     (let distance = calculateDistance_km (lat location) (lon location)
                       (element_lat element) (element_lon element)
      in \<lparr> shop_id = element_id element,
           shop_name = Some (or_default (tags_name element) ''Unknown''),
           shop_lat = element_lat element,
           shop_lon = element_lon element,
           distance = distance \<rparr>)"

definition sortedShops :: "Location \<Rightarrow> element list \<Rightarrow> (int, string option) CoffeeShop list" where
  "sortedShops location elements =
     slice 0 5 (sort_by byDistance (map (toCoffeeShop_km location) elements))"

section \<open>What \<^verbatim>\<open>fetchCoffeeShops\<close> does to the component\<close>

text \<open>
  What the two awaited calls deliver. \<^verbatim>\<open>fetch\<close> rejects (\<open>None\<close>) or resolves to a
  response; \<^verbatim>\<open>response.json()\<close> rejects, or yields data without an array
  \<^verbatim>\<open>elements\<close> so that \<^verbatim>\<open>data.elements.map\<close> throws (\<open>None\<close>), or yields the
  elements.
\<close>

datatype response = Response (ok: bool) (json: "element list option")

text \<open>The part of the component state that \<^verbatim>\<open>fetchCoffeeShops\<close> writes.\<close>

record 'shop State =
  coffeeShops :: "'shop list"
  loading :: bool
  error :: "string option"

text \<open>\<^verbatim>\<open>fetchCoffeeShops\<close> of \<^verbatim>\<open>src/app/page.tsx\<close>: \<^verbatim>\<open>response.ok\<close> is not read.\<close>

definition fetchCoffeeShops ::
  "Location \<Rightarrow> response option \<Rightarrow> (string, string) CoffeeShop State
     \<Rightarrow> (string, string) CoffeeShop State" where
  "fetchCoffeeShops location fetched s =
     (let s1 = s\<lparr>loading := True\<rparr>;
          caught = s1\<lparr>error := Some ''Failed to fetch coffee shops.'', loading := False\<rparr>
      in case fetched of
           None \<Rightarrow> caught
         | Some response \<Rightarrow>
             (case json response of
                None \<Rightarrow> caught
              | Some elements \<Rightarrow>
                  s1\<lparr>coffeeShops := shops location elements, loading := False\<rparr>))"

text \<open>
  \<^verbatim>\<open>fetchCoffeeShops\<close> of the two implementations of \<^verbatim>\<open>src/unnamed/part_000\<close>: a
  response that is not \<^verbatim>\<open>ok\<close> throws.
\<close>

definition fetchCoffeeShops_km ::
  "Location \<Rightarrow> response option \<Rightarrow> (int, string option) CoffeeShop State
     \<Rightarrow> (int, string option) CoffeeShop State" where
  "fetchCoffeeShops_km location fetched s =
     (let caught = s\<lparr>error := Some ''Failed to fetch coffee shops'', loading := False\<rparr>
      in case fetched of
           None \<Rightarrow> caught
         | Some response \<Rightarrow>
             if \<not> ok response then caught
             else (case json response of
                     None \<Rightarrow> caught
                   | Some elements \<Rightarrow>
                       s\<lparr>coffeeShops := sortedShops location elements, loading := False\<rparr>))"

section \<open>The arrays as objects of a store\<close>

text \<open>
  In JavaScript an array is an object that is reached through a reference, and
  \<^verbatim>\<open>sort\<close> sorts the array it is called on in place. The store is the list of the
  objects allocated so far and a reference is an index into it, so that a new object
  gets a reference nothing else holds. The objects \<^verbatim>\<open>map\<close>'s callback creates are
  fresh and are written nowhere, so they are kept as values inside their array.
\<close>

datatype ('i, 'n) object =
  Elements "element list"
| Shops "('i, 'n) CoffeeShop list"
| Position Location

type_synonym ref = nat
type_synonym ('i, 'n) store = "('i, 'n) object list"

definition deref :: "('i, 'n) store \<Rightarrow> ref \<Rightarrow> ('i, 'n) object option" where
  "deref h r = (if r < length h then Some (h ! r) else None)"

definition alloc :: "('i, 'n) object \<Rightarrow> ('i, 'n) store \<Rightarrow> ref \<times> ('i, 'n) store" where
  "alloc v h = (length h, h @ [v])"

text \<open>
  Each method returns the reference of its result and the store it leaves, or \<open>None\<close>
  for the \<^verbatim>\<open>TypeError\<close> of a receiver that is not the array expected.
\<close>

definition Array_map ::
  "(element \<Rightarrow> ('i, 'n) CoffeeShop) \<Rightarrow> ref \<Rightarrow> ('i, 'n) store
     \<Rightarrow> (ref \<times> ('i, 'n) store) option" where
  "Array_map callback r h =
     (case deref h r of
        Some (Elements es) \<Rightarrow> Some (alloc (Shops (map callback es)) h)
      | _ \<Rightarrow> None)"

definition Array_sort ::
  "(('i, 'n) CoffeeShop \<Rightarrow> ('i, 'n) CoffeeShop \<Rightarrow> number) \<Rightarrow> ref \<Rightarrow> ('i, 'n) store
     \<Rightarrow> (ref \<times> ('i, 'n) store) option" where
  "Array_sort comparefn r h =
     (case deref h r of
        Some (Shops xs) \<Rightarrow> Some (r, h[r := Shops (sort_by comparefn xs)])
      | _ \<Rightarrow> None)"

definition Array_slice ::
  "int \<Rightarrow> int \<Rightarrow> ref \<Rightarrow> ('i, 'n) store \<Rightarrow> (ref \<times> ('i, 'n) store) option" where
  "Array_slice start end r h =
     (case deref h r of
        Some (Shops xs) \<Rightarrow> Some (alloc (Shops (slice start end xs)) h)
      | _ \<Rightarrow> None)"

text \<open>
  The expression \<^verbatim>\<open>data.elements.map(...).sort(...).slice(0, 5)\<close> on the store:
  \<open>location\<close> and \<open>elements\<close> are the references of the position object and of the array
  \<^verbatim>\<open>data.elements\<close>. The callback is the one of \<^verbatim>\<open>src/app/page.tsx\<close> in
  \<open>shops_store\<close> and the one of \<^verbatim>\<open>src/unnamed/part_000\<close> in \<open>sortedShops_store\<close>.
\<close>

definition ranking ::
  "(Location \<Rightarrow> element \<Rightarrow> ('i, 'n) CoffeeShop) \<Rightarrow> ref \<Rightarrow> ref \<Rightarrow> ('i, 'n) store
     \<Rightarrow> (ref \<times> ('i, 'n) store) option" where
  "ranking callback location elements h =
     (case deref h location of
        Some (Position l) \<Rightarrow>
          Option.bind (Array_map (callback l) elements h) (\<lambda>(mapped, h1).
          Option.bind (Array_sort byDistance mapped h1) (\<lambda>(sorted, h2).
          Array_slice 0 5 sorted h2))
      | _ \<Rightarrow> None)"

definition shops_store ::
  "ref \<Rightarrow> ref \<Rightarrow> (string, string) store \<Rightarrow> (ref \<times> (string, string) store) option" where
  "shops_store = ranking toCoffeeShop"

definition sortedShops_store ::
  "ref \<Rightarrow> ref \<Rightarrow> (int, string option) store
     \<Rightarrow> (ref \<times> (int, string option) store) option" where
  "sortedShops_store = ranking toCoffeeShop_km"

section \<open>The terms of the distance\<close>

text \<open>
  The values of the variables \<^verbatim>\<open>a\<close> and \<^verbatim>\<open>c\<close> of \<^verbatim>\<open>calculateDistance\<close>, which
  are the same in the three implementations.
\<close>

definition hav_a :: "number \<Rightarrow> number \<Rightarrow> number \<Rightarrow> number \<Rightarrow> number" where
  "hav_a lat1 lon1 lat2 lon2 =
     (sin ((lat2 - lat1) * (pi / 180) / 2))\<^sup>2 +
     cos (lat1 * (pi / 180)) * cos (lat2 * (pi / 180)) *
       (sin ((lon2 - lon1) * (pi / 180) / 2))\<^sup>2"

definition hav_c :: "number \<Rightarrow> number \<Rightarrow> number \<Rightarrow> number \<Rightarrow> number" where
  "hav_c lat1 lon1 lat2 lon2 =
     2 * Math_atan2 (sqrt (hav_a lat1 lon1 lat2 lon2)) (sqrt (1 - hav_a lat1 lon1 lat2 lon2))"

section \<open>Sorting by distance and truncating\<close>





section \<open>No candidates\<close>

text \<open>
  C7: with no candidates the ranking is empty, whatever count \<open>k\<close> stands in
  \<^verbatim>\<open>slice(0, k)\<close> for the 5 of the code, and this is a normal result: when the
  service answers with an empty array of elements, \<^verbatim>\<open>fetchCoffeeShops\<close> stores the empty
  list, ends the loading and leaves \<^verbatim>\<open>error\<close> as it was; the \<^verbatim>\<open>catch\<close> branch is
  not taken.
\<close>

theorem no_candidates:
  "shops location [] = [] \<and>
   sortedShops location [] = [] \<and>
   slice 0 k (sort_by byDistance (map (toCoffeeShop location) [])) = [] \<and>
   slice 0 k (sort_by byDistance (map (toCoffeeShop_km location) [])) = [] \<and>
   fetchCoffeeShops location (Some (Response b (Some []))) s =
     s\<lparr>coffeeShops := [], loading := False\<rparr> \<and>
   error (fetchCoffeeShops location (Some (Response b (Some []))) s) = error s \<and>
   fetchCoffeeShops_km location (Some (Response True (Some []))) t =
     t\<lparr>coffeeShops := [], loading := False\<rparr> \<and>
   error (fetchCoffeeShops_km location (Some (Response True (Some []))) t) = error t"
  by (simp add: shops_def sortedShops_def fetchCoffeeShops_def fetchCoffeeShops_km_def
      sort_by_def slice_def)

section \<open>The ranking on the store\<close>

lemma ranking_result:
  assumes "deref h location = Some (Position l)"
    and "deref h elements = Some (Elements es)"
  shows "ranking callback location elements h =
    Some (Suc (length h),
      h @ [Shops (sort_by byDistance (map (callback l) es)),
           Shops (slice 0 5 (sort_by byDistance (map (callback l) es)))])"
  using assms
  by (simp add: ranking_def Array_map_def Array_sort_def Array_slice_def alloc_def deref_def
      nth_append split: if_splits)

lemma deref_append: "p < length h \<Longrightarrow> deref (h @ xs) p = deref h p"
  by (simp add: deref_def nth_append)

lemma deref_result: "deref (h @ [x, y]) (Suc (length h)) = Some y"
  by (simp add: deref_def nth_append)

lemma deref_Some: "deref h p = Some x \<Longrightarrow> p < length h"
  by (simp add: deref_def split: if_splits)

lemma ranking_frame:
  assumes "deref h location = Some (Position l)"
    and "deref h elements = Some (Elements es)"
  shows "\<exists>r h'. ranking callback location elements h = Some (r, h') \<and>
           deref h' r = Some (Shops (slice 0 5 (sort_by byDistance (map (callback l) es)))) \<and>
           length h \<le> r \<and>
           (\<forall>p<length h. deref h' p = deref h p) \<and>
           deref h' elements = Some (Elements es) \<and>
           deref h' location = Some (Position l)"
  using assms deref_Some [OF assms(1)] deref_Some [OF assms(2)]
  by (simp add: ranking_result [OF assms] deref_append deref_result)

text \<open>
  C9: the ranking has no side effect. On a store that holds the position and the array
  of the elements, it returns a new array, and every object the store held before the
  call is unchanged after it, the array of the candidates and the position among them:
  \<^verbatim>\<open>sort\<close> sorts in place the array that \<^verbatim>\<open>map\<close> has just allocated. The distance is
  a function of four numbers and has no access to the store.
\<close>

theorem ranking_no_side_effects:
  "(deref h location = Some (Position l) \<and> deref h elements = Some (Elements es) \<longrightarrow>
      (\<exists>r h'. shops_store location elements h = Some (r, h') \<and>
           deref h' r = Some (Shops (shops l es)) \<and>
           length h \<le> r \<and>
           (\<forall>p<length h. deref h' p = deref h p) \<and>
           deref h' elements = Some (Elements es) \<and>
           deref h' location = Some (Position l))) \<and>
   (deref g location = Some (Position l) \<and> deref g elements = Some (Elements es) \<longrightarrow>
      (\<exists>r g'. sortedShops_store location elements g = Some (r, g') \<and>
           deref g' r = Some (Shops (sortedShops l es)) \<and>
           length g \<le> r \<and>
           (\<forall>p<length g. deref g' p = deref g p) \<and>
           deref g' elements = Some (Elements es) \<and>
           deref g' location = Some (Position l)))"
  unfolding shops_store_def sortedShops_store_def shops_def sortedShops_def
  by (intro conjI impI; elim conjE; rule ranking_frame; assumption)

theorem ranking_no_side_effects_witness:
  "\<exists>r h'. shops_store 0 1
       [Position \<lparr>lat = 48, lon = 2\<rparr>,
        Elements [\<lparr>element_id = 7, element_lat = 49, element_lon = 3, tags_name = None\<rparr>,
                  \<lparr>element_id = 8, element_lat = 48, element_lon = 1, tags_name = Some ''Bar''\<rparr>]]
       = Some (r, h') \<and>
     deref h' 0 = Some (Position \<lparr>lat = 48, lon = 2\<rparr>) \<and>
     deref h' 1 = Some (Elements
       [\<lparr>element_id = 7, element_lat = 49, element_lon = 3, tags_name = None\<rparr>,
        \<lparr>element_id = 8, element_lat = 48, element_lon = 1, tags_name = Some ''Bar''\<rparr>])"
  (is "\<exists>r h'. shops_store 0 1 ?h = Some (r, h') \<and> deref h' 0 = Some (Position ?l) \<and>
        deref h' 1 = Some (Elements ?es)")
proof -
  have pre: "deref ?h 0 = Some (Position ?l) \<and> deref ?h 1 = Some (Elements ?es)"
    by (simp add: deref_def)
  have "deref ?h 0 = Some (Position ?l) \<and> deref ?h 1 = Some (Elements ?es) \<longrightarrow>
      (\<exists>r h'. shops_store 0 1 ?h = Some (r, h') \<and>
           deref h' r = Some (Shops (shops ?l ?es)) \<and>
           length ?h \<le> r \<and>
           (\<forall>p<length ?h. deref h' p = deref ?h p) \<and>
           deref h' 1 = Some (Elements ?es) \<and>
           deref h' 0 = Some (Position ?l))"
    using ranking_no_side_effects [of ?h 0 ?l 1 ?es] by (rule conjunct1)
  with pre show ?thesis
    by blast
qed

section \<open>The terms of the distance in exact arithmetic\<close>

text \<open>
  In exact arithmetic the term \<^verbatim>\<open>a\<close> lies between 0 and 1 for all arguments, so both
  square roots are taken of non-negative numbers and \<^verbatim>\<open>c\<close> is twice the arc sine of
  \<open>sqrt a\<close>.
\<close>

lemma calculateDistance_km_eq:
  "calculateDistance_km lat1 lon1 lat2 lon2 = 6371 * hav_c lat1 lon1 lat2 lon2"
  by (simp add: calculateDistance_km_def hav_c_def hav_a_def Let_def power2_eq_square mult.assoc)

lemma calculateDistance_eq:
  "calculateDistance lat1 lon1 lat2 lon2 =
     Math_round (6371 * hav_c lat1 lon1 lat2 lon2 * 100) / 100"
  by (simp add: calculateDistance_def hav_c_def hav_a_def Let_def power2_eq_square mult.assoc)





section \<open>Properties of the distance\<close>

lemma hav_a_same: "hav_a lat1 lon1 lat1 lon1 = 0"
  by (simp add: hav_a_def)

lemma hav_c_same: "hav_c lat1 lon1 lat1 lon1 = 0"
  by (simp add: hav_c_def hav_a_same Math_atan2_def)

text \<open>
  C4: the distance from a coordinate to itself is exactly 0, in the three
  implementations and for all arguments, those in the ranges of latitude and longitude
  among them.
\<close>

theorem distance_same_point:
  "calculateDistance lat1 lon1 lat1 lon1 = 0 \<and> calculateDistance_km lat1 lon1 lat1 lon1 = 0"
  by (simp add: calculateDistance_eq calculateDistance_km_eq hav_c_same Math_round_def)




section \<open>The first \<open>k\<close> of the sorted candidates\<close>

text \<open>
  The code ranks with \<^verbatim>\<open>slice(0, 5)\<close>; the statements are about \<^verbatim>\<open>slice(0, k)\<close> for
  the count \<open>k\<close> in the place of the 5, and about the code itself at \<open>k = 5\<close>.
\<close>






section \<open>The term \<^verbatim>\<open>a\<close> at antipodal points\<close>


end
